theory Spec2Isabelle
  imports Main "HOL-Library.AList"
begin

section \<open>Data model\<close>

text \<open>
  The annotation store (class \<open>FirebaseCanvasStorage\<close>) and the section navigation of
  \<open>QuizApp\<close> are embedded as pure functions. Identifiers are the strings that the
  source's template literals and \<open>toString()\<close> calls produce; \<open>null\<close> arguments are
  \<open>None\<close>. A rejected promise is \<open>Inl\<close> of an error, a resolved one \<open>Inr\<close> of its value.
\<close>

datatype error =
    RemoteFailure string
  | NoImageInSVG
  | ImageLoadFailed
  | InvalidFormat
  | ParseFailed
  | TypeError
  | ImportFailed error
  | FileReadFailed

datatype timestamp = ServerTimestamp | ClientTime string

record canvas =
  width :: nat
  height :: nat
  pixels :: string

record dims =
  dim_width :: nat
  dim_height :: nat

record canvasDoc =
  svg :: string
  timestamp :: timestamp
  dimensions :: dims
  fileId :: string
  questionId :: string
  partId :: string
  sectionId :: "string option"
  importedAt :: "timestamp option"

text \<open>
  The platform services the store calls but does not define: the SHA-256 hex digest, the
  XML serialisation of the SVG envelope, the DOM parser's lookup of the \<open>image\<close> element's
  \<open>href\<close>, and the browser's image decoder (\<open>None\<close> when \<open>onerror\<close> fires).
\<close>

record env =
  digest :: "string \<Rightarrow> string"
  serialize :: "nat \<Rightarrow> nat \<Rightarrow> string \<Rightarrow> string"
  imageHref :: "string \<Rightarrow> string option"
  decodeImage :: "string \<Rightarrow> string option"

text \<open>
  The store's fields. \<open>canvasData\<close> is the JavaScript object used as cache, kept as an
  association list in insertion order (\<open>Object.keys\<close> would list integer-like keys
  first; only membership and the number of keys are used below). A user's remote
  collection is likewise the list of its documents (identifier and data).
\<close>

type_synonym collection = "(string \<times> canvasDoc) list"

record storage =
  userId :: "string option"
  canvasData :: collection
  isLoading :: bool
  hasLoadedFromFirebase :: bool

definition FirebaseCanvasStorage :: "string option \<Rightarrow> storage" where
  "FirebaseCanvasStorage uid =
     \<lparr>userId = uid, canvasData = [], isLoading = False, hasLoadedFromFirebase = False\<rparr>"

text \<open>\<open>!this.userId\<close>: \<open>null\<close>, \<open>undefined\<close> and the empty string are falsy.\<close>

definition noUser :: "storage \<Rightarrow> bool" where
  "noUser s = (case userId s of None \<Rightarrow> True | Some u \<Rightarrow> u = [])"

section \<open>Key derivation\<close>

definition hashString :: "env \<Rightarrow> string \<Rightarrow> string" where
  "hashString E str = digest E str"

text \<open>\<open>filePath || 'default'\<close>: an absent and an empty path both fall back.\<close>

definition getFileHash :: "env \<Rightarrow> string option \<Rightarrow> string" where
  "getFileHash E filePath =
     hashString E (case filePath of
                     None \<Rightarrow> ''default''
                   | Some p \<Rightarrow> if p = [] then ''default'' else p)"

definition getCanvasKey :: "string \<Rightarrow> string \<Rightarrow> string option \<Rightarrow> string" where
  "getCanvasKey qid pid sid =
     (case sid of
        Some sec \<Rightarrow> ''section_'' @ sec @ ''_q'' @ qid @ ''_p'' @ pid
      | None \<Rightarrow> ''q'' @ qid @ ''_p'' @ pid)"

text \<open>The template \<open>`${fileHash}_${key}`\<close> of save, load and delete.\<close>

definition compositeKey :: "string \<Rightarrow> string \<Rightarrow> string" where
  "compositeKey fileHash key = fileHash @ ''_'' @ key"

text \<open>A numeric identifier serialised as a string: a non-empty run of decimal digits.\<close>

definition numericId :: "string \<Rightarrow> bool" where
  "numericId s = (s \<noteq> [] \<and> list_all (\<lambda>c. c \<in> set ''0123456789'') s)"

definition numericSection :: "string option \<Rightarrow> bool" where
  "numericSection sid = (case sid of None \<Rightarrow> True | Some sec \<Rightarrow> numericId sec)"

section \<open>Section navigation\<close>

text \<open>
  \<open>QuizApp\<close> keeps \<open>currentSectionIndex\<close>; the section list comes from the parser
  (\<open>latexParser.getSections()\<close>) and only its length is read.
\<close>

record quizApp =
  currentSectionIndex :: int

text \<open>The constructor sets \<open>currentSectionIndex = 0\<close>.\<close>

definition startApp :: quizApp where
  "startApp = \<lparr>currentSectionIndex = 0\<rparr>"

definition showSection :: "'a list \<Rightarrow> int \<Rightarrow> quizApp \<Rightarrow> quizApp" where
  "showSection sections index app =
     (if index < 0 \<or> index \<ge> int (length sections) then app
      else app\<lparr>currentSectionIndex := index\<rparr>)"

definition previousSection :: "'a list \<Rightarrow> quizApp \<Rightarrow> quizApp" where
  "previousSection sections app =
     (if currentSectionIndex app > 0
      then showSection sections (currentSectionIndex app - 1) app
      else app)"

definition nextSection :: "'a list \<Rightarrow> quizApp \<Rightarrow> quizApp" where
  "nextSection sections app =
     (if currentSectionIndex app < int (length sections) - 1
      then showSection sections (currentSectionIndex app + 1) app
      else app)"

datatype transition = GoTo int | Previous | Next

fun navigate :: "'a list \<Rightarrow> transition \<Rightarrow> quizApp \<Rightarrow> quizApp" where
  "navigate sections (GoTo i) app = showSection sections i app"
| "navigate sections Previous app = previousSection sections app"
| "navigate sections Next app = nextSection sections app"

definition inBounds :: "'a list \<Rightarrow> quizApp \<Rightarrow> bool" where
  "inBounds sections app =
     (0 \<le> currentSectionIndex app \<and> currentSectionIndex app < int (length sections))"

section \<open>Codec\<close>

text \<open>\<open>pixels\<close> stands for what \<open>canvas.toDataURL('image/png')\<close> yields.\<close>

definition canvasToSVG :: "env \<Rightarrow> canvas \<Rightarrow> string" where
  "canvasToSVG E cv = serialize E (width cv) (height cv) (pixels cv)"

text \<open>
  The promise rejects when the parsed SVG has no \<open>image\<close> element and when the image
  fails to load; otherwise \<open>onload\<close> clears the canvas and draws the image at the origin.
\<close>

definition loadSVGToCanvas :: "env \<Rightarrow> canvas \<Rightarrow> string \<Rightarrow> error + canvas" where
  "loadSVGToCanvas E cv svgData =
     (case imageHref E svgData of
        None \<Rightarrow> Inl NoImageInSVG
      | Some href \<Rightarrow>
          (case decodeImage E href of
             None \<Rightarrow> Inl ImageLoadFailed
           | Some img \<Rightarrow> Inr (cv\<lparr>pixels := img\<rparr>)))"

section \<open>Remote store adapter\<close>

text \<open>
  The calls of the Firestore SDK on one user's \<open>canvases\<close> collection. Whether a call
  fails is decided outside the program (network, permissions, an invalid path), so each
  call takes its outcome as the argument \<open>fault\<close>: \<open>Some e\<close> rejects with \<open>e\<close> and leaves the
  collection as it was, \<open>None\<close> lets the call take effect. A batch commits all of its
  operations or none.
\<close>

definition setDoc :: "error option \<Rightarrow> collection \<Rightarrow> string \<Rightarrow> canvasDoc \<Rightarrow> error + collection" where
  "setDoc fault remote k d =
     (case fault of Some e \<Rightarrow> Inl e | None \<Rightarrow> Inr (AList.update k d remote))"

definition getDoc :: "error option \<Rightarrow> collection \<Rightarrow> string \<Rightarrow> error + canvasDoc option" where
  "getDoc fault remote k =
     (case fault of Some e \<Rightarrow> Inl e | None \<Rightarrow> Inr (map_of remote k))"

definition getDocs :: "error option \<Rightarrow> collection \<Rightarrow> error + collection" where
  "getDocs fault remote =
     (case fault of Some e \<Rightarrow> Inl e | None \<Rightarrow> Inr remote)"

definition deleteDoc :: "error option \<Rightarrow> collection \<Rightarrow> string \<Rightarrow> error + collection" where
  "deleteDoc fault remote k =
     (case fault of Some e \<Rightarrow> Inl e | None \<Rightarrow> Inr (AList.delete k remote))"

datatype batchOp = BatchSet string canvasDoc | BatchDelete string

fun applyOp :: "batchOp \<Rightarrow> collection \<Rightarrow> collection" where
  "applyOp (BatchSet k d) remote = AList.update k d remote"
| "applyOp (BatchDelete k) remote = AList.delete k remote"

definition commit :: "error option \<Rightarrow> collection \<Rightarrow> batchOp list \<Rightarrow> error + collection" where
  "commit fault remote batch =
     (case fault of Some e \<Rightarrow> Inl e | None \<Rightarrow> Inr (fold applyOp batch remote))"

section \<open>The annotation store\<close>

text \<open>\<open>sectionId?.toString() || null\<close>.\<close>

definition sectionField :: "string option \<Rightarrow> string option" where
  "sectionField sid =
     (case sid of None \<Rightarrow> None | Some sec \<Rightarrow> if sec = [] then None else Some sec)"

definition newCanvasDoc :: "env \<Rightarrow> canvas \<Rightarrow> string \<Rightarrow> string \<Rightarrow> string option \<Rightarrow> string option \<Rightarrow> canvasDoc" where
  "newCanvasDoc E cv qid pid sid filePath =
     \<lparr>svg = canvasToSVG E cv,
      timestamp = ServerTimestamp,
      dimensions = \<lparr>dim_width = width cv, dim_height = height cv\<rparr>,
      fileId = getFileHash E filePath,
      questionId = qid,
      partId = pid,
      sectionId = sectionField sid,
      importedAt = None\<rparr>"

text \<open>
  Every operation returns the promise's outcome, the store and, where it may write, the
  remote collection. \<open>now\<close> is the clock reading of \<open>new Date().toISOString()\<close>.
  In \<open>saveCanvasAsSVG\<close> the \<open>catch\<close> turns a rejected write into \<open>null\<close>.
\<close>

definition saveCanvasAsSVG ::
  "env \<Rightarrow> string \<Rightarrow> error option \<Rightarrow> storage \<Rightarrow> collection \<Rightarrow> canvas \<Rightarrow>
   string \<Rightarrow> string \<Rightarrow> string option \<Rightarrow> string option \<Rightarrow>
   (error + string option) \<times> storage \<times> collection" where
  "saveCanvasAsSVG E now fault s remote cv qid pid sid filePath =
     (if noUser s then (Inr None, s, remote)
      else
        let key = getCanvasKey qid pid sid;
            svgData = canvasToSVG E cv;
            fileHash = getFileHash E filePath;
            canvasDoc = newCanvasDoc E cv qid pid sid filePath
        in case setDoc fault remote (compositeKey fileHash key) canvasDoc of
             Inl e \<Rightarrow> (Inr None, s, remote)
           | Inr remote' \<Rightarrow>
               (Inr (Some svgData),
                s\<lparr>canvasData :=
                    AList.update (compositeKey fileHash key)
                      (canvasDoc\<lparr>timestamp := ClientTime now\<rparr>) (canvasData s)\<rparr>,
                remote'))"

text \<open>
  The tail of \<open>loadCanvasFromSVG\<close>: \<open>if (canvasDoc && canvasDoc.svg)\<close> decodes, a rejected
  decode is caught. The canvas is returned as drawn, or untouched.
\<close>

definition drawIfPresent ::
  "env \<Rightarrow> storage \<Rightarrow> canvas \<Rightarrow> canvasDoc option \<Rightarrow> (error + bool) \<times> storage \<times> canvas" where
  "drawIfPresent E s cv canvasDoc =
     (case canvasDoc of
        None \<Rightarrow> (Inr False, s, cv)
      | Some d \<Rightarrow>
          if svg d = [] then (Inr False, s, cv)
          else (case loadSVGToCanvas E cv (svg d) of
                  Inl e \<Rightarrow> (Inr False, s, cv)
                | Inr cv' \<Rightarrow> (Inr True, s, cv')))"

definition loadCanvasFromSVG ::
  "env \<Rightarrow> error option \<Rightarrow> storage \<Rightarrow> collection \<Rightarrow> canvas \<Rightarrow>
   string \<Rightarrow> string \<Rightarrow> string option \<Rightarrow> string option \<Rightarrow>
   (error + bool) \<times> storage \<times> canvas" where
  "loadCanvasFromSVG E fault s remote cv qid pid sid filePath =
     (if noUser s then (Inr False, s, cv)
      else
        let key = getCanvasKey qid pid sid;
            fileHash = getFileHash E filePath;
            fullKey = compositeKey fileHash key
        in case map_of (canvasData s) fullKey of
             Some d \<Rightarrow> drawIfPresent E s cv (Some d)
           | None \<Rightarrow>
               (case getDoc fault remote fullKey of
                  Inl e \<Rightarrow> (Inr False, s, cv)
                | Inr None \<Rightarrow> drawIfPresent E s cv None
                | Inr (Some d) \<Rightarrow>
                    drawIfPresent E
                      (s\<lparr>canvasData := AList.update fullKey d (canvasData s)\<rparr>) cv (Some d)))"

text \<open>
  \<open>loadAllCanvasesForFile\<close> also returns the store as it stands while the fetch is
  awaited (\<open>None\<close> when the guard returns before the flag is set).
\<close>

definition mergeMatching :: "string \<Rightarrow> string \<times> canvasDoc \<Rightarrow> collection \<Rightarrow> collection" where
  "mergeMatching fileHash entry cache =
     (if fileId (snd entry) = fileHash then AList.update (fst entry) (snd entry) cache
      else cache)"

definition loadAllCanvasesForFile ::
  "env \<Rightarrow> error option \<Rightarrow> storage \<Rightarrow> collection \<Rightarrow> string option \<Rightarrow>
   (error + unit) \<times> storage option \<times> storage" where
  "loadAllCanvasesForFile E fault s remote filePath =
     (if noUser s then (Inr (), None, s)
      else
        let s1 = s\<lparr>isLoading := True\<rparr>;
            fileHash = getFileHash E filePath;
            s2 = (case getDocs fault remote of
                    Inl e \<Rightarrow> s1
                  | Inr snapshot \<Rightarrow>
                      s1\<lparr>canvasData := fold (mergeMatching fileHash) snapshot (canvasData s1),
                         hasLoadedFromFirebase := True\<rparr>)
        in (Inr (), Some s1, s2\<lparr>isLoading := False\<rparr>))"

record exportData =
  exp_userId :: "string option"
  exp_timestamp :: string
  version :: string
  source :: string
  canvases :: collection

definition exportAllCanvases ::
  "string \<Rightarrow> error option \<Rightarrow> storage \<Rightarrow> collection \<Rightarrow> error + nat \<times> exportData" where
  "exportAllCanvases now fault s remote =
     (case getDocs fault remote of
        Inl e \<Rightarrow> Inl e
      | Inr snapshot \<Rightarrow>
          Inr (length snapshot,
               \<lparr>exp_userId = userId s, exp_timestamp = now, version = ''2.0'',
                source = ''firebase'',
                canvases = fold (\<lambda>entry cs. AList.update (fst entry) (snd entry) cs) snapshot []\<rparr>))"

text \<open>
  What the file reader and \<open>JSON.parse\<close> hand to the import: an unreadable file, text
  that does not parse, the value \<open>null\<close> (reading a member of it throws), or a parsed
  value of which only the member \<open>canvases\<close> is read (\<open>None\<close> when it is missing or
  falsy, else its entries in order).
\<close>

datatype fileInput = ReadFails | ParseFails | ParsedNull | Parsed "collection option"

definition restamp :: "canvasDoc \<Rightarrow> canvasDoc" where
  "restamp d = d\<lparr>timestamp := ServerTimestamp, importedAt := Some ServerTimestamp\<rparr>"

definition queueImport :: "string \<times> canvasDoc \<Rightarrow> batchOp list \<times> nat \<Rightarrow> batchOp list \<times> nat" where
  "queueImport entry acc =
     (fst acc @ [BatchSet (fst entry) (restamp (snd entry))], snd acc + 1)"

definition assign :: "collection \<Rightarrow> collection \<Rightarrow> collection" where
  "assign target src = fold (\<lambda>entry c. AList.update (fst entry) (snd entry) c) src target"

definition importCanvases ::
  "fileInput \<Rightarrow> error option \<Rightarrow> storage \<Rightarrow> collection \<Rightarrow>
   (error + nat) \<times> storage \<times> collection" where
  "importCanvases file fault s remote =
     (case file of
        ReadFails \<Rightarrow> (Inl FileReadFailed, s, remote)
      | ParseFails \<Rightarrow> (Inl (ImportFailed ParseFailed), s, remote)
      | ParsedNull \<Rightarrow> (Inl (ImportFailed TypeError), s, remote)
      | Parsed None \<Rightarrow> (Inl InvalidFormat, s, remote)
      | Parsed (Some entries) \<Rightarrow>
          let (batch, count) = fold queueImport entries ([], 0)
          in case commit fault remote batch of
               Inl e \<Rightarrow> (Inl (ImportFailed e), s, remote)
             | Inr remote' \<Rightarrow>
                 (Inr count, s\<lparr>canvasData := assign (canvasData s) entries\<rparr>, remote'))"

definition clearAllCanvases ::
  "error option \<Rightarrow> error option \<Rightarrow> storage \<Rightarrow> collection \<Rightarrow>
   (error + unit) \<times> storage \<times> collection" where
  "clearAllCanvases readFault commitFault s remote =
     (case getDocs readFault remote of
        Inl e \<Rightarrow> (Inl e, s, remote)
      | Inr snapshot \<Rightarrow>
          (case commit commitFault remote (map (\<lambda>entry. BatchDelete (fst entry)) snapshot) of
             Inl e \<Rightarrow> (Inl e, s, remote)
           | Inr remote' \<Rightarrow> (Inr (), s\<lparr>canvasData := []\<rparr>, remote')))"

definition deleteCanvas ::
  "env \<Rightarrow> error option \<Rightarrow> storage \<Rightarrow> collection \<Rightarrow>
   string \<Rightarrow> string \<Rightarrow> string option \<Rightarrow> string option \<Rightarrow>
   (error + unit) \<times> storage \<times> collection" where
  "deleteCanvas E fault s remote qid pid sid filePath =
     (let key = getCanvasKey qid pid sid;
          fileHash = getFileHash E filePath;
          fullKey = compositeKey fileHash key
      in case deleteDoc fault remote fullKey of
           Inl e \<Rightarrow> (Inl e, s, remote)
         | Inr remote' \<Rightarrow>
             (Inr (), s\<lparr>canvasData := AList.delete fullKey (canvasData s)\<rparr>, remote'))"

definition getAllCanvasKeys :: "storage \<Rightarrow> string list" where
  "getAllCanvasKeys s = map fst (canvasData s)"

definition getCanvasCount :: "storage \<Rightarrow> nat" where
  "getCanvasCount s = length (getAllCanvasKeys s)"

definition isLoadingFromFirebase :: "storage \<Rightarrow> bool" where
  "isLoadingFromFirebase s = isLoading s"

definition hasLoadedData :: "storage \<Rightarrow> bool" where
  "hasLoadedData s = hasLoadedFromFirebase s"

section \<open>Sample data\<close>

text \<open>
  A small environment and store on which the theorems are instantiated. The sample
  digest is a stand-in: nothing proved below depends on which digest is used.
\<close>

definition sampleEnv :: env where
  "sampleEnv =
     \<lparr>digest = (\<lambda>str. ''h'' @ str),
      serialize = (\<lambda>w h href. ''<svg><image href='' @ href @ ''/></svg>''),
      imageHref = (\<lambda>svgData.
         if take 17 svgData = ''<svg><image href=''
         then Some (take (length svgData - 25) (drop 17 svgData)) else None),
      decodeImage = (\<lambda>href. if href = ''corrupt'' then None else Some href)\<rparr>"

definition sampleCanvas :: canvas where
  "sampleCanvas = \<lparr>width = 400, height = 300, pixels = ''png''\<rparr>"

definition sampleDoc :: "string \<Rightarrow> string \<Rightarrow> canvasDoc" where
  "sampleDoc content file =
     \<lparr>svg = content, timestamp = ServerTimestamp,
      dimensions = \<lparr>dim_width = 400, dim_height = 300\<rparr>,
      fileId = file, questionId = ''1'', partId = ''1'', sectionId = None,
      importedAt = None\<rparr>"

definition sampleStore :: storage where
  "sampleStore = FirebaseCanvasStorage (Some ''u1'')"

definition threeSections :: "string list" where
  "threeSections = [''A'', ''B'', ''C'']"

definition otherCanvas :: canvas where
  "otherCanvas = \<lparr>width = 400, height = 300, pixels = ''png2''\<rparr>"

definition savedOnce :: "(error + string option) \<times> storage \<times> collection" where
  "savedOnce =
     saveCanvasAsSVG sampleEnv ''t1'' None sampleStore [] sampleCanvas
       ''1'' ''1'' (Some ''0'') (Some ''doc.tex'')"

definition savedTwice :: "(error + string option) \<times> storage \<times> collection" where
  "savedTwice =
     saveCanvasAsSVG sampleEnv ''t2'' None (fst (snd savedOnce)) (snd (snd savedOnce))
       otherCanvas ''1'' ''1'' (Some ''0'') (Some ''doc.tex'')"

text \<open>An import whose one record carries no vector image, stored under the key of
  question 1, part 1 of the default document.\<close>

definition blankKey :: string where
  "blankKey = compositeKey (getFileHash sampleEnv None) (getCanvasKey ''1'' ''1'' None)"

definition importedBlank :: "(error + nat) \<times> storage \<times> collection" where
  "importedBlank =
     importCanvases (Parsed (Some [(blankKey, sampleDoc [] ''hdefault'')])) None sampleStore []"

text \<open>An import of two records under the keys \<open>a\<close> and \<open>b\<close>.\<close>

definition importedTwo :: "(error + nat) \<times> storage \<times> collection" where
  "importedTwo =
     importCanvases
       (Parsed (Some [(''a'', sampleDoc ''<svg/>'' ''h1''), (''b'', sampleDoc ''<svg/>'' ''h2'')]))
       None sampleStore []"

text \<open>A remote collection holding one record of \<open>doc.tex\<close> and one of another document.\<close>

definition mixedRemote :: collection where
  "mixedRemote =
     [(''hdoc.tex_q1_p1'', sampleDoc ''<svg/>'' ''hdoc.tex''),
      (''hother_q1_p1'', sampleDoc ''<svg/>'' ''hother'')]"

text \<open>A store constructed without a user identity, and a failure of the remote call.\<close>

definition anonymousStore :: storage where
  "anonymousStore = FirebaseCanvasStorage None"

definition invalidPath :: error where
  "invalidPath = RemoteFailure ''invalid path''"

section \<open>Properties of the navigator\<close>

lemma navigate_inBounds:
  "inBounds sections app \<Longrightarrow> inBounds sections (navigate sections t app)"
  by (cases t)
     (auto simp: inBounds_def showSection_def previousSection_def nextSection_def)

lemma fold_navigate_inBounds:
  "inBounds sections app \<Longrightarrow> inBounds sections (fold (navigate sections) ts app)"
  by (induction ts arbitrary: app) (simp_all add: navigate_inBounds)


text \<open>
  Claim C5. With the section list fixed, an index inside \<open>[0, n)\<close> stays inside it under
  every sequence of \<open>goTo\<close>, \<open>previous\<close> and \<open>next\<close>, and so does the constructor's
  index 0 when there is at least one section; \<open>goTo i\<close> with \<open>i < 0\<close> or \<open>i \<ge> n\<close>
  changes nothing, \<open>previous\<close> at index 0 and \<open>next\<close> at index \<open>n - 1\<close> change nothing, and
  with three sections three successive \<open>next\<close> from index 0 give 1, 2 and 2.
\<close>

theorem navigator_stays_in_bounds:
  "(inBounds sections app \<longrightarrow> inBounds sections (fold (navigate sections) ts app))
   \<and> (sections \<noteq> [] \<longrightarrow> inBounds sections (fold (navigate sections) ts startApp))
   \<and> (i < 0 \<or> i \<ge> int (length sections) \<longrightarrow> showSection sections i app = app)
   \<and> (currentSectionIndex app = 0 \<longrightarrow> previousSection sections app = app)
   \<and> (currentSectionIndex app = int (length sections) - 1 \<longrightarrow> nextSection sections app = app)
   \<and> (length sections = 3 \<and> currentSectionIndex app = 0 \<longrightarrow>
        currentSectionIndex (fold (navigate sections) [Next] app) = 1
      \<and> currentSectionIndex (fold (navigate sections) [Next, Next] app) = 2
      \<and> currentSectionIndex (fold (navigate sections) [Next, Next, Next] app) = 2)"
proof (intro conjI impI)
  assume "inBounds sections app"
  then show "inBounds sections (fold (navigate sections) ts app)"
    by (rule fold_navigate_inBounds)
next
  assume "sections \<noteq> []"
  then have "inBounds sections startApp"
    by (simp add: inBounds_def startApp_def)
  then show "inBounds sections (fold (navigate sections) ts startApp)"
    by (rule fold_navigate_inBounds)
next
  assume "i < 0 \<or> i \<ge> int (length sections)"
  then show "showSection sections i app = app"
    by (auto simp: showSection_def)
next
  assume "currentSectionIndex app = 0"
  then show "previousSection sections app = app"
    by (simp add: previousSection_def)
next
  assume "currentSectionIndex app = int (length sections) - 1"
  then show "nextSection sections app = app"
    by (simp add: nextSection_def)
next
  assume a: "length sections = 3 \<and> currentSectionIndex app = 0"
  then show "currentSectionIndex (fold (navigate sections) [Next] app) = 1"
    by (simp add: nextSection_def showSection_def)
  from a show "currentSectionIndex (fold (navigate sections) [Next, Next] app) = 2"
    by (simp add: nextSection_def showSection_def)
  from a show "currentSectionIndex (fold (navigate sections) [Next, Next, Next] app) = 2"
    by (simp add: nextSection_def showSection_def)
qed

theorem navigator_stays_in_bounds_witness:
  "inBounds threeSections startApp
   \<and> inBounds threeSections (fold (navigate threeSections) [Next, GoTo 7, Next, Next, Previous] startApp)
   \<and> showSection threeSections (- 1) startApp = startApp
   \<and> showSection threeSections 3 startApp = startApp
   \<and> previousSection threeSections startApp = startApp
   \<and> nextSection threeSections \<lparr>currentSectionIndex = 2\<rparr> = \<lparr>currentSectionIndex = 2\<rparr>
   \<and> currentSectionIndex (fold (navigate threeSections) [Next, Next, Next] startApp) = 2"
proof -
  have b: "inBounds threeSections startApp"
    by (simp add: inBounds_def threeSections_def startApp_def)
  have l: "length threeSections = 3 \<and> currentSectionIndex startApp = 0"
    by (simp add: threeSections_def startApp_def)
  have e: "currentSectionIndex \<lparr>currentSectionIndex = 2\<rparr> = int (length threeSections) - 1"
    by (simp add: threeSections_def)
  note t = navigator_stays_in_bounds
  from b l e
    t [of threeSections startApp "[Next, GoTo 7, Next, Next, Previous]" "- 1"]
    t [of threeSections startApp "[]" 3]
    t [of threeSections "\<lparr>currentSectionIndex = 2\<rparr>" "[]" 3]
  show ?thesis by simp
qed

section \<open>Properties of the composite key\<close>

lemma no_underscore_split:
  assumes "CHR ''_'' \<notin> set a" "CHR ''_'' \<notin> set b"
    and "a @ CHR ''_'' # r = b @ CHR ''_'' # t"
  shows "a = b \<and> r = t"
proof -
  have "takeWhile (\<lambda>c. c \<noteq> CHR ''_'') (a @ CHR ''_'' # r) = a"
    using assms(1) by (auto simp: takeWhile_tail)
  moreover have "takeWhile (\<lambda>c. c \<noteq> CHR ''_'') (b @ CHR ''_'' # t) = b"
    using assms(2) by (auto simp: takeWhile_tail)
  ultimately have "a = b" using assms(3) by simp
  with assms(3) show ?thesis by simp
qed

lemma numericId_no_underscore: "numericId s \<Longrightarrow> CHR ''_'' \<notin> set s"
  by (auto simp: numericId_def list_all_iff)

lemma getCanvasKey_inj:
  assumes "numericId q" "numericId q'" "numericSection sid" "numericSection sid'"
    and "getCanvasKey q p sid = getCanvasKey q' p' sid'"
  shows "sid = sid' \<and> q = q' \<and> p = p'"
proof (cases sid; cases sid')
  fix a b assume s: "sid = Some a" "sid' = Some b"
  with assms(3,4) have na: "CHR ''_'' \<notin> set a" "CHR ''_'' \<notin> set b"
    by (simp_all add: numericSection_def numericId_no_underscore)
  from assms(5) s have "a @ CHR ''_'' # (CHR ''q'' # q @ ''_p'' @ p) = b @ CHR ''_'' # (CHR ''q'' # q' @ ''_p'' @ p')"
    by (simp add: getCanvasKey_def)
  from no_underscore_split [OF na this] have ab: "a = b" and "q @ CHR ''_'' # (CHR ''p'' # p) = q' @ CHR ''_'' # (CHR ''p'' # p')"
    by simp_all
  from no_underscore_split [OF numericId_no_underscore [OF assms(1)] numericId_no_underscore [OF assms(2)] this(2)]
  show ?thesis using ab s by simp
next
  assume s: "sid = None" "sid' = None"
  from assms(5) s have "q @ CHR ''_'' # (CHR ''p'' # p) = q' @ CHR ''_'' # (CHR ''p'' # p')"
    by (simp add: getCanvasKey_def)
  from no_underscore_split [OF numericId_no_underscore [OF assms(1)] numericId_no_underscore [OF assms(2)] this]
  show ?thesis using s by simp
next
  fix a assume "sid = Some a" "sid' = None"
  with assms(5) show ?thesis by (simp add: getCanvasKey_def)
next
  fix a assume "sid = None" "sid' = Some a"
  with assms(5) show ?thesis by (simp add: getCanvasKey_def)
qed

text \<open>
  Claim C1. The composite key is the document identifier, an underscore, and
  \<open>section_<s>_q<q>_p<p>\<close> when a section is given, \<open>q<q>_p<p>\<close> otherwise; it is a function
  of these four strings alone. Under one document, two different tuples of numeric
  identifiers never get the same key.
\<close>

theorem compositeKey_unique:
  "compositeKey d (getCanvasKey q p (Some sec))
     = d @ ''_'' @ (''section_'' @ sec @ ''_q'' @ q @ ''_p'' @ p)
   \<and> compositeKey d (getCanvasKey q p None) = d @ ''_'' @ (''q'' @ q @ ''_p'' @ p)
   \<and> (numericSection sid \<and> numericId q \<and> numericId p
        \<and> numericSection sid' \<and> numericId q' \<and> numericId p'
        \<and> (sid, q, p) \<noteq> (sid', q', p')
      \<longrightarrow> compositeKey d (getCanvasKey q p sid) \<noteq> compositeKey d (getCanvasKey q' p' sid'))"
proof (intro conjI impI)
  show "compositeKey d (getCanvasKey q p (Some sec))
     = d @ ''_'' @ (''section_'' @ sec @ ''_q'' @ q @ ''_p'' @ p)"
    by (simp add: compositeKey_def getCanvasKey_def)
  show "compositeKey d (getCanvasKey q p None) = d @ ''_'' @ (''q'' @ q @ ''_p'' @ p)"
    by (simp add: compositeKey_def getCanvasKey_def)
next
  assume a: "numericSection sid \<and> numericId q \<and> numericId p
        \<and> numericSection sid' \<and> numericId q' \<and> numericId p'
        \<and> (sid, q, p) \<noteq> (sid', q', p')"
  show "compositeKey d (getCanvasKey q p sid) \<noteq> compositeKey d (getCanvasKey q' p' sid')"
  proof
    assume "compositeKey d (getCanvasKey q p sid) = compositeKey d (getCanvasKey q' p' sid')"
    then have "getCanvasKey q p sid = getCanvasKey q' p' sid'"
      by (simp add: compositeKey_def)
    with a have "sid = sid' \<and> q = q' \<and> p = p'"
      by (intro getCanvasKey_inj) simp_all
    with a show False by simp
  qed
qed

theorem compositeKey_unique_witness:
  "numericSection (Some ''0'') \<and> numericId ''1'' \<and> numericId ''12'' \<and> numericSection None
   \<and> compositeKey ''abc'' (getCanvasKey ''1'' ''12'' (Some ''0'')) = ''abc_section_0_q1_p12''
   \<and> compositeKey ''abc'' (getCanvasKey ''1'' ''12'' None) = ''abc_q1_p12''
   \<and> compositeKey ''abc'' (getCanvasKey ''1'' ''12'' (Some ''0''))
       \<noteq> compositeKey ''abc'' (getCanvasKey ''12'' ''1'' None)"
proof -
  have n: "numericSection (Some ''0'')" "numericId ''1''" "numericId ''12''" "numericSection None"
    by (simp_all add: numericSection_def numericId_def)
  have d: "(Some ''0'', ''1'', ''12'') \<noteq> (None, ''12'', ''1'')"
    by simp
  note k = compositeKey_unique [of "''abc''" "''1''" "''12''" "''0''" "Some ''0''" None "''12''" "''1''"]
  from k have k1: "compositeKey ''abc'' (getCanvasKey ''1'' ''12'' (Some ''0'')) = ''abc_section_0_q1_p12''"
    by simp
  from k have k2: "compositeKey ''abc'' (getCanvasKey ''1'' ''12'' None) = ''abc_q1_p12''"
    by simp
  from k n d have k3: "compositeKey ''abc'' (getCanvasKey ''1'' ''12'' (Some ''0''))
       \<noteq> compositeKey ''abc'' (getCanvasKey ''12'' ''1'' None)"
    by blast
  from n k1 k2 k3 show ?thesis by (intro conjI)
qed

section \<open>Properties of the document identifier\<close>

text \<open>
  Claim C10. An empty path is treated as an absent one: both identifiers are the digest of
  the fixed string \<open>default\<close>, so a save with path \<open>""\<close> and a save with no path write the
  same \<open>fileId\<close> under the same key.
\<close>

theorem empty_path_is_absent:
  "getFileHash E (Some []) = getFileHash E None
   \<and> getFileHash E None = hashString E ''default''
   \<and> hashString E ''default'' = digest E ''default''
   \<and> fileId (newCanvasDoc E cv q p sid (Some [])) = fileId (newCanvasDoc E cv q p sid None)
   \<and> saveCanvasAsSVG E now fault s remote cv q p sid (Some [])
       = saveCanvasAsSVG E now fault s remote cv q p sid None"
  by (simp add: getFileHash_def hashString_def newCanvasDoc_def saveCanvasAsSVG_def)

theorem empty_path_is_absent_witness:
  "getFileHash sampleEnv (Some []) = ''hdefault''
   \<and> getFileHash sampleEnv None = ''hdefault''
   \<and> fst (snd (saveCanvasAsSVG sampleEnv ''t1'' None sampleStore [] sampleCanvas ''1'' ''1'' None (Some [])))
       = fst (snd (saveCanvasAsSVG sampleEnv ''t1'' None sampleStore [] sampleCanvas ''1'' ''1'' None None))"
proof -
  have d: "digest sampleEnv ''default'' = ''hdefault''"
    by (simp add: sampleEnv_def)
  from d empty_path_is_absent [of sampleEnv sampleCanvas "''1''" "''1''" None "''t1''" None sampleStore "[]"]
  show ?thesis by simp
qed

section \<open>Properties of save\<close>

lemma saveCanvasAsSVG_noUser:
  "noUser s \<Longrightarrow> saveCanvasAsSVG E now fault s remote cv q p sid path = (Inr None, s, remote)"
  by (simp add: saveCanvasAsSVG_def)

lemma saveCanvasAsSVG_fails:
  "\<not> noUser s \<Longrightarrow>
   saveCanvasAsSVG E now (Some e) s remote cv q p sid path = (Inr None, s, remote)"
  by (simp add: saveCanvasAsSVG_def setDoc_def Let_def)

lemma saveCanvasAsSVG_succeeds:
  "\<not> noUser s \<Longrightarrow>
   saveCanvasAsSVG E now None s remote cv q p sid path =
     (Inr (Some (canvasToSVG E cv)),
      s\<lparr>canvasData :=
          AList.update (compositeKey (getFileHash E path) (getCanvasKey q p sid))
            ((newCanvasDoc E cv q p sid path)\<lparr>timestamp := ClientTime now\<rparr>) (canvasData s)\<rparr>,
      AList.update (compositeKey (getFileHash E path) (getCanvasKey q p sid))
        (newCanvasDoc E cv q p sid path) remote)"
  by (simp add: saveCanvasAsSVG_def setDoc_def Let_def)

text \<open>
  Claim C2. Without a user identity save returns \<open>null\<close> and touches neither the remote
  collection nor the cache. With one, a failing remote write is caught: the call returns
  \<open>null\<close>, again changing nothing; a successful write returns the encoded image, leaves the
  record (with the server timestamp sentinel) in the remote collection and a copy stamped
  with the client clock in the cache, both under the composite key, other keys untouched.
  The promise never rejects.
\<close>

theorem save_outcome:
  "(noUser s \<longrightarrow>
      saveCanvasAsSVG E now fault s remote cv q p sid path = (Inr None, s, remote))
   \<and> (\<not> noUser s \<longrightarrow>
      saveCanvasAsSVG E now (Some e) s remote cv q p sid path = (Inr None, s, remote))
   \<and> (\<not> noUser s
        \<and> saveCanvasAsSVG E now None s remote cv q p sid path = (r, s', remote')
        \<and> k = compositeKey (getFileHash E path) (getCanvasKey q p sid) \<longrightarrow>
          r = Inr (Some (canvasToSVG E cv))
        \<and> map_of remote' k = Some (newCanvasDoc E cv q p sid path)
        \<and> map_of (canvasData s') k
            = Some ((newCanvasDoc E cv q p sid path)\<lparr>timestamp := ClientTime now\<rparr>)
        \<and> svg (newCanvasDoc E cv q p sid path) = canvasToSVG E cv
        \<and> timestamp (newCanvasDoc E cv q p sid path) = ServerTimestamp
        \<and> (\<forall>k'. k' \<noteq> k \<longrightarrow> map_of remote' k' = map_of remote k'
                     \<and> map_of (canvasData s') k' = map_of (canvasData s) k'))
   \<and> (\<exists>v. fst (saveCanvasAsSVG E now fault s remote cv q p sid path) = Inr v)"
proof (intro conjI impI)
  show "\<exists>v. fst (saveCanvasAsSVG E now fault s remote cv q p sid path) = Inr v"
  proof (cases "noUser s")
    case True
    then show ?thesis by (simp add: saveCanvasAsSVG_noUser)
  next
    case False
    then show ?thesis
      by (cases fault) (simp_all add: saveCanvasAsSVG_succeeds saveCanvasAsSVG_fails)
  qed
next
  assume "noUser s"
  then show "saveCanvasAsSVG E now fault s remote cv q p sid path = (Inr None, s, remote)"
    by (rule saveCanvasAsSVG_noUser)
next
  assume "\<not> noUser s"
  then show "saveCanvasAsSVG E now (Some e) s remote cv q p sid path = (Inr None, s, remote)"
    by (rule saveCanvasAsSVG_fails)
next
  assume a: "\<not> noUser s
        \<and> saveCanvasAsSVG E now None s remote cv q p sid path = (r, s', remote')
        \<and> k = compositeKey (getFileHash E path) (getCanvasKey q p sid)"
  then have u: "\<not> noUser s"
    and eq: "saveCanvasAsSVG E now None s remote cv q p sid path = (r, s', remote')"
    and k: "k = compositeKey (getFileHash E path) (getCanvasKey q p sid)"
    by simp_all
  from eq have r: "r = Inr (Some (canvasToSVG E cv))"
    and s': "s' = s\<lparr>canvasData :=
          AList.update k ((newCanvasDoc E cv q p sid path)\<lparr>timestamp := ClientTime now\<rparr>)
            (canvasData s)\<rparr>"
    and remote': "remote' = AList.update k (newCanvasDoc E cv q p sid path) remote"
    by (simp_all add: saveCanvasAsSVG_succeeds [OF u] k)
  show "r = Inr (Some (canvasToSVG E cv))"
    by (rule r)
  show "map_of remote' k = Some (newCanvasDoc E cv q p sid path)"
    by (simp add: remote' update_conv')
  show "map_of (canvasData s') k
            = Some ((newCanvasDoc E cv q p sid path)\<lparr>timestamp := ClientTime now\<rparr>)"
    by (simp add: s' update_conv')
  show "svg (newCanvasDoc E cv q p sid path) = canvasToSVG E cv"
    by (simp add: newCanvasDoc_def)
  show "timestamp (newCanvasDoc E cv q p sid path) = ServerTimestamp"
    by (simp add: newCanvasDoc_def)
  show "\<forall>k'. k' \<noteq> k \<longrightarrow> map_of remote' k' = map_of remote k'
                     \<and> map_of (canvasData s') k' = map_of (canvasData s) k'"
    by (simp add: s' remote' update_conv')
qed

theorem save_outcome_witness:
  "\<not> noUser sampleStore \<and> noUser (FirebaseCanvasStorage None)
   \<and> fst (saveCanvasAsSVG sampleEnv ''t1'' None sampleStore [] sampleCanvas
             ''1'' ''1'' (Some ''0'') (Some ''doc.tex''))
       = Inr (Some ''<svg><image href=png/></svg>'')
   \<and> saveCanvasAsSVG sampleEnv ''t1'' (Some (RemoteFailure ''offline'')) sampleStore []
         sampleCanvas ''1'' ''1'' (Some ''0'') (Some ''doc.tex'')
       = (Inr None, sampleStore, [])
   \<and> saveCanvasAsSVG sampleEnv ''t1'' None (FirebaseCanvasStorage None) []
         sampleCanvas ''1'' ''1'' (Some ''0'') (Some ''doc.tex'')
       = (Inr None, FirebaseCanvasStorage None, [])"
proof -
  have u: "\<not> noUser sampleStore" "noUser (FirebaseCanvasStorage None)"
    by (simp_all add: sampleStore_def FirebaseCanvasStorage_def noUser_def)
  have enc: "canvasToSVG sampleEnv sampleCanvas = ''<svg><image href=png/></svg>''"
    by (simp add: canvasToSVG_def sampleEnv_def sampleCanvas_def)
  note a = save_outcome [where s = sampleStore and E = sampleEnv and now = "''t1''"
      and fault = None and remote = "[]" and cv = sampleCanvas and q = "''1''" and p = "''1''"
      and sid = "Some ''0''" and path = "Some ''doc.tex''" and e = "RemoteFailure ''offline''"
      and r = "fst savedOnce" and s' = "fst (snd savedOnce)" and remote' = "snd (snd savedOnce)"
      and k = "compositeKey (getFileHash sampleEnv (Some ''doc.tex''))
                 (getCanvasKey ''1'' ''1'' (Some ''0''))"]
  note b = save_outcome [where s = "FirebaseCanvasStorage None" and E = sampleEnv
      and now = "''t1''" and fault = None and remote = "[]" and cv = sampleCanvas
      and q = "''1''" and p = "''1''" and sid = "Some ''0''" and path = "Some ''doc.tex''"]
  from u a enc have 1: "fst (saveCanvasAsSVG sampleEnv ''t1'' None sampleStore [] sampleCanvas
             ''1'' ''1'' (Some ''0'') (Some ''doc.tex''))
       = Inr (Some ''<svg><image href=png/></svg>'')"
    by (simp add: savedOnce_def)
  from u a have 2: "saveCanvasAsSVG sampleEnv ''t1'' (Some (RemoteFailure ''offline'')) sampleStore []
         sampleCanvas ''1'' ''1'' (Some ''0'') (Some ''doc.tex'') = (Inr None, sampleStore, [])"
    by simp
  from u b have 3: "saveCanvasAsSVG sampleEnv ''t1'' None (FirebaseCanvasStorage None) []
         sampleCanvas ''1'' ''1'' (Some ''0'') (Some ''doc.tex'')
       = (Inr None, FirebaseCanvasStorage None, [])"
    by simp
  from u 1 2 3 show ?thesis by (intro conjI)
qed

lemma noUser_canvasData_update [simp]: "noUser (s\<lparr>canvasData := c\<rparr>) = noUser s"
  by (simp add: noUser_def)

lemma keys_update_present:
  "k \<in> fst ` set al \<Longrightarrow> map fst (AList.update k v al) = map fst al"
  by (simp add: update_keys)

lemma length_update_present:
  "k \<in> fst ` set al \<Longrightarrow> length (AList.update k v al) = length al"
  using arg_cong [OF keys_update_present, of k al length v] by simp

lemma one_entry_per_key:
  "distinct (map fst al) \<Longrightarrow> k \<in> fst ` set al \<Longrightarrow>
   length (filter (\<lambda>entry. fst entry = k) al) = 1"
proof (induction al)
  case Nil
  then show ?case by simp
next
  case (Cons x al)
  show ?case
  proof (cases "fst x = k")
    case True
    with Cons.prems have "k \<notin> fst ` set al" by auto
    then have "filter (\<lambda>entry. fst entry = k) al = []"
      by (auto simp: filter_empty_conv)
    with True show ?thesis by simp
  next
    case False
    with Cons show ?thesis by auto
  qed
qed

text \<open>
  Claim C8. After a save that succeeded, a second save for the same question, part,
  section and path leaves the cache's keys and their count as they were: the key is
  present, exactly once when the cache's keys were distinct before, and a second save that
  succeeds leaves the latest encoding under it.
\<close>

theorem save_twice_one_entry:
  "saveCanvasAsSVG E nowA faultA s remote cvA q p sid path = (Inr (Some imgA), s1, remote1)
   \<and> saveCanvasAsSVG E nowB faultB s1 remote1 cvB q p sid path = (r2, s2, remote2)
   \<and> k = compositeKey (getFileHash E path) (getCanvasKey q p sid) \<longrightarrow>
     getAllCanvasKeys s2 = getAllCanvasKeys s1
   \<and> getCanvasCount s2 = getCanvasCount s1
   \<and> k \<in> set (getAllCanvasKeys s2)
   \<and> (distinct (getAllCanvasKeys s) \<longrightarrow>
        length (filter (\<lambda>entry. fst entry = k) (canvasData s2)) = 1)
   \<and> (r2 = Inr (Some imgB) \<longrightarrow>
        imgB = canvasToSVG E cvB
      \<and> map_option svg (map_of (canvasData s2) k) = Some (canvasToSVG E cvB))"
proof
  assume a: "saveCanvasAsSVG E nowA faultA s remote cvA q p sid path = (Inr (Some imgA), s1, remote1)
   \<and> saveCanvasAsSVG E nowB faultB s1 remote1 cvB q p sid path = (r2, s2, remote2)
   \<and> k = compositeKey (getFileHash E path) (getCanvasKey q p sid)"
  then have u: "\<not> noUser s"
    by (auto simp: saveCanvasAsSVG_noUser)
  with a have fA: "faultA = None"
    by (cases faultA) (simp_all add: saveCanvasAsSVG_fails)
  from a u fA have s1: "s1 = s\<lparr>canvasData :=
      AList.update k ((newCanvasDoc E cvA q p sid path)\<lparr>timestamp := ClientTime nowA\<rparr>)
        (canvasData s)\<rparr>"
    by (simp add: saveCanvasAsSVG_succeeds)
  have in_c: "k \<in> fst ` set (canvasData s1)"
    by (simp add: s1 dom_update)
  have dist: "distinct (map fst (canvasData s)) \<Longrightarrow> distinct (map fst (canvasData s1))"
    by (simp add: s1 distinct_update)
  have u1: "\<not> noUser s1"
    using u by (simp add: s1)
  show "getAllCanvasKeys s2 = getAllCanvasKeys s1
   \<and> getCanvasCount s2 = getCanvasCount s1
   \<and> k \<in> set (getAllCanvasKeys s2)
   \<and> (distinct (getAllCanvasKeys s) \<longrightarrow>
        length (filter (\<lambda>entry. fst entry = k) (canvasData s2)) = 1)
   \<and> (r2 = Inr (Some imgB) \<longrightarrow>
        imgB = canvasToSVG E cvB
      \<and> map_option svg (map_of (canvasData s2) k) = Some (canvasToSVG E cvB))"
  proof (cases faultB)
    case None
    with a u1 have s2: "s2 = s1\<lparr>canvasData :=
        AList.update k ((newCanvasDoc E cvB q p sid path)\<lparr>timestamp := ClientTime nowB\<rparr>)
          (canvasData s1)\<rparr>"
      and r2: "r2 = Inr (Some (canvasToSVG E cvB))"
      by (simp_all add: saveCanvasAsSVG_succeeds)
    from in_c dist show ?thesis
      by (simp add: s2 r2 getAllCanvasKeys_def getCanvasCount_def keys_update_present
          length_update_present dom_update one_entry_per_key distinct_update update_conv'
          newCanvasDoc_def)
  next
    case (Some e)
    with a u1 have "s2 = s1" and "r2 = Inr None"
      by (simp_all add: saveCanvasAsSVG_fails)
    with in_c dist show ?thesis
      by (simp add: getAllCanvasKeys_def getCanvasCount_def one_entry_per_key)
  qed
qed

lemma savedOnce_eval:
  "savedOnce =
     (Inr (Some ''<svg><image href=png/></svg>''),
      sampleStore\<lparr>canvasData :=
        [(''hdoc.tex_section_0_q1_p1'',
          \<lparr>svg = ''<svg><image href=png/></svg>'', timestamp = ClientTime ''t1'',
           dimensions = \<lparr>dim_width = 400, dim_height = 300\<rparr>, fileId = ''hdoc.tex'',
           questionId = ''1'', partId = ''1'', sectionId = Some ''0'', importedAt = None\<rparr>)]\<rparr>,
      [(''hdoc.tex_section_0_q1_p1'',
          \<lparr>svg = ''<svg><image href=png/></svg>'', timestamp = ServerTimestamp,
           dimensions = \<lparr>dim_width = 400, dim_height = 300\<rparr>, fileId = ''hdoc.tex'',
           questionId = ''1'', partId = ''1'', sectionId = Some ''0'', importedAt = None\<rparr>)])"
  by (simp add: savedOnce_def saveCanvasAsSVG_def sampleStore_def FirebaseCanvasStorage_def
      noUser_def setDoc_def Let_def newCanvasDoc_def canvasToSVG_def sampleEnv_def
      sampleCanvas_def getFileHash_def hashString_def getCanvasKey_def compositeKey_def
      sectionField_def)

theorem save_twice_one_entry_witness:
  "fst savedOnce = Inr (Some ''<svg><image href=png/></svg>'')
   \<and> getCanvasCount (fst (snd savedTwice)) = getCanvasCount (fst (snd savedOnce))
   \<and> getAllCanvasKeys (fst (snd savedTwice)) = getAllCanvasKeys (fst (snd savedOnce))
   \<and> getCanvasCount (fst (snd savedTwice)) = 1"
proof -
  have 1: "fst savedOnce = Inr (Some ''<svg><image href=png/></svg>'')"
    by (simp add: savedOnce_eval)
  then have a: "saveCanvasAsSVG sampleEnv ''t1'' None sampleStore [] sampleCanvas
       ''1'' ''1'' (Some ''0'') (Some ''doc.tex'')
      = (Inr (Some ''<svg><image href=png/></svg>''), fst (snd savedOnce), snd (snd savedOnce))"
    unfolding savedOnce_def [symmetric] by (metis prod.collapse)
  have b: "saveCanvasAsSVG sampleEnv ''t2'' None (fst (snd savedOnce)) (snd (snd savedOnce))
       otherCanvas ''1'' ''1'' (Some ''0'') (Some ''doc.tex'')
      = (fst savedTwice, fst (snd savedTwice), snd (snd savedTwice))"
    unfolding savedTwice_def [symmetric] by simp
  have n: "getCanvasCount (fst (snd savedOnce)) = 1"
    by (simp add: savedOnce_eval getCanvasCount_def getAllCanvasKeys_def)
  from a b n save_twice_one_entry [where E = sampleEnv and nowA = "''t1''" and faultA = None
      and s = sampleStore and remote = "[]" and cvA = sampleCanvas and q = "''1''"
      and p = "''1''" and sid = "Some ''0''" and path = "Some ''doc.tex''"
      and imgA = "''<svg><image href=png/></svg>''" and nowB = "''t2''" and faultB = None
      and cvB = otherCanvas and imgB = "''<svg><image href=png2/></svg>''"
      and ?s1.0 = "fst (snd savedOnce)" and ?remote1.0 = "snd (snd savedOnce)"
      and ?r2.0 = "fst savedTwice" and ?s2.0 = "fst (snd savedTwice)"
      and ?remote2.0 = "snd (snd savedTwice)"
      and k = "compositeKey (getFileHash sampleEnv (Some ''doc.tex''))
                 (getCanvasKey ''1'' ''1'' (Some ''0''))"]
  have "getCanvasCount (fst (snd savedTwice)) = getCanvasCount (fst (snd savedOnce))
     \<and> getAllCanvasKeys (fst (snd savedTwice)) = getAllCanvasKeys (fst (snd savedOnce))"
    by simp
  with 1 n show ?thesis by simp
qed

section \<open>Properties of load\<close>

lemma importedBlank_eval:
  "importedBlank =
     (Inr 1,
      sampleStore\<lparr>canvasData := [(''hdefault_q1_p1'', sampleDoc [] ''hdefault'')]\<rparr>,
      [(''hdefault_q1_p1'', restamp (sampleDoc [] ''hdefault''))])"
  by (simp add: importedBlank_def importCanvases_def queueImport_def commit_def assign_def
      blankKey_def getFileHash_def hashString_def sampleEnv_def getCanvasKey_def
      compositeKey_def sampleStore_def FirebaseCanvasStorage_def)

text \<open>
  Claim C3 as stated fails: a key that is present in the cache does not make load return
  true. After importing a record that carries no vector image, its key is among the cached
  keys, yet load for that key returns false.
\<close>

theorem load_cached_key_counterexample:
  "fst importedBlank = Inr 1
   \<and> \<not> noUser (fst (snd importedBlank))
   \<and> blankKey \<in> set (getAllCanvasKeys (fst (snd importedBlank)))
   \<and> fst (loadCanvasFromSVG sampleEnv None (fst (snd importedBlank)) (snd (snd importedBlank))
            sampleCanvas ''1'' ''1'' None None) = Inr False"
  by (simp add: importedBlank_eval getAllCanvasKeys_def blankKey_def getFileHash_def
      hashString_def sampleEnv_def getCanvasKey_def compositeKey_def sampleStore_def
      FirebaseCanvasStorage_def noUser_def loadCanvasFromSVG_def drawIfPresent_def
      sampleDoc_def)

lemma loadCanvasFromSVG_noUser:
  "noUser s \<Longrightarrow> loadCanvasFromSVG E fault s remote cv q p sid path = (Inr False, s, cv)"
  by (simp add: loadCanvasFromSVG_def)

lemma loadCanvasFromSVG_hit:
  "\<not> noUser s \<Longrightarrow>
   map_of (canvasData s) (compositeKey (getFileHash E path) (getCanvasKey q p sid)) = Some d \<Longrightarrow>
   loadCanvasFromSVG E fault s remote cv q p sid path = drawIfPresent E s cv (Some d)"
  by (simp add: loadCanvasFromSVG_def Let_def)

lemma loadCanvasFromSVG_miss:
  "\<not> noUser s \<Longrightarrow>
   map_of (canvasData s) (compositeKey (getFileHash E path) (getCanvasKey q p sid)) = None \<Longrightarrow>
   loadCanvasFromSVG E fault s remote cv q p sid path =
     (case fault of
        Some e \<Rightarrow> (Inr False, s, cv)
      | None \<Rightarrow>
          (case map_of remote (compositeKey (getFileHash E path) (getCanvasKey q p sid)) of
             None \<Rightarrow> (Inr False, s, cv)
           | Some d \<Rightarrow>
               drawIfPresent E
                 (s\<lparr>canvasData :=
                      AList.update (compositeKey (getFileHash E path) (getCanvasKey q p sid)) d
                        (canvasData s)\<rparr>) cv (Some d)))"
  by (simp add: loadCanvasFromSVG_def Let_def getDoc_def drawIfPresent_def
      split: option.splits)

lemma drawIfPresent_decodes:
  "svg d \<noteq> [] \<Longrightarrow> loadSVGToCanvas E cv (svg d) = Inr cv' \<Longrightarrow>
   drawIfPresent E s cv (Some d) = (Inr True, s, cv')"
  by (simp add: drawIfPresent_def)

lemma drawIfPresent_fails:
  "svg d = [] \<or> loadSVGToCanvas E cv (svg d) = Inl e \<Longrightarrow>
   drawIfPresent E s cv (Some d) = (Inr False, s, cv)"
  by (auto simp: drawIfPresent_def)

lemma drawIfPresent_resolves: "\<exists>b. fst (drawIfPresent E s cv doc) = Inr b"
  by (auto simp: drawIfPresent_def split: option.splits sum.splits)

text \<open>
  Claim C3, amended. With a user identity set, load returns true when the cached record
  of the composite key has a non-empty vector image that decodes, whatever the remote
  store holds or answers; on a cache miss it reads the remote record, caches it if
  present, and returns true when that record's non-empty image decodes. It returns false
  when the record found has no vector image or does not decode, when the record is absent
  from cache and remote, when the remote read fails, and when no user identity is set. The
  promise never rejects.
\<close>

theorem load_outcome:
  "k = compositeKey (getFileHash E path) (getCanvasKey q p sid) \<longrightarrow>
     (noUser s \<longrightarrow>
        loadCanvasFromSVG E fault s remote cv q p sid path = (Inr False, s, cv))
   \<and> (\<not> noUser s \<and> map_of (canvasData s) k = Some d
        \<and> svg d \<noteq> [] \<and> loadSVGToCanvas E cv (svg d) = Inr cv' \<longrightarrow>
        loadCanvasFromSVG E fault s remote cv q p sid path = (Inr True, s, cv'))
   \<and> (\<not> noUser s \<and> map_of (canvasData s) k = Some d
        \<and> (svg d = [] \<or> loadSVGToCanvas E cv (svg d) = Inl e) \<longrightarrow>
        loadCanvasFromSVG E fault s remote cv q p sid path = (Inr False, s, cv))
   \<and> (\<not> noUser s \<and> map_of (canvasData s) k = None \<and> map_of remote k = Some d
        \<and> svg d \<noteq> [] \<and> loadSVGToCanvas E cv (svg d) = Inr cv' \<longrightarrow>
        loadCanvasFromSVG E None s remote cv q p sid path
          = (Inr True, s\<lparr>canvasData := AList.update k d (canvasData s)\<rparr>, cv'))
   \<and> (\<not> noUser s \<and> map_of (canvasData s) k = None \<and> map_of remote k = Some d
        \<and> (svg d = [] \<or> loadSVGToCanvas E cv (svg d) = Inl e) \<longrightarrow>
        loadCanvasFromSVG E None s remote cv q p sid path
          = (Inr False, s\<lparr>canvasData := AList.update k d (canvasData s)\<rparr>, cv))
   \<and> (\<not> noUser s \<and> map_of (canvasData s) k = None \<and> map_of remote k = None \<longrightarrow>
        loadCanvasFromSVG E None s remote cv q p sid path = (Inr False, s, cv))
   \<and> (\<not> noUser s \<and> map_of (canvasData s) k = None \<longrightarrow>
        loadCanvasFromSVG E (Some e) s remote cv q p sid path = (Inr False, s, cv))
   \<and> (\<exists>b. fst (loadCanvasFromSVG E fault s remote cv q p sid path) = Inr b)"
proof
  assume k: "k = compositeKey (getFileHash E path) (getCanvasKey q p sid)"
  have resolves: "\<exists>b. fst (loadCanvasFromSVG E fault s remote cv q p sid path) = Inr b"
  proof (cases "noUser s")
    case True
    then show ?thesis by (auto simp: loadCanvasFromSVG_noUser)
  next
    case False
    show ?thesis
    proof (cases "map_of (canvasData s) k")
      case None
      with False show ?thesis
        unfolding k
        by (auto simp: loadCanvasFromSVG_miss drawIfPresent_resolves split: option.splits)
    next
      case (Some d0)
      with False show ?thesis
        unfolding k by (simp add: loadCanvasFromSVG_hit drawIfPresent_resolves)
    qed
  qed
  show "(noUser s \<longrightarrow>
        loadCanvasFromSVG E fault s remote cv q p sid path = (Inr False, s, cv))
   \<and> (\<not> noUser s \<and> map_of (canvasData s) k = Some d
        \<and> svg d \<noteq> [] \<and> loadSVGToCanvas E cv (svg d) = Inr cv' \<longrightarrow>
        loadCanvasFromSVG E fault s remote cv q p sid path = (Inr True, s, cv'))
   \<and> (\<not> noUser s \<and> map_of (canvasData s) k = Some d
        \<and> (svg d = [] \<or> loadSVGToCanvas E cv (svg d) = Inl e) \<longrightarrow>
        loadCanvasFromSVG E fault s remote cv q p sid path = (Inr False, s, cv))
   \<and> (\<not> noUser s \<and> map_of (canvasData s) k = None \<and> map_of remote k = Some d
        \<and> svg d \<noteq> [] \<and> loadSVGToCanvas E cv (svg d) = Inr cv' \<longrightarrow>
        loadCanvasFromSVG E None s remote cv q p sid path
          = (Inr True, s\<lparr>canvasData := AList.update k d (canvasData s)\<rparr>, cv'))
   \<and> (\<not> noUser s \<and> map_of (canvasData s) k = None \<and> map_of remote k = Some d
        \<and> (svg d = [] \<or> loadSVGToCanvas E cv (svg d) = Inl e) \<longrightarrow>
        loadCanvasFromSVG E None s remote cv q p sid path
          = (Inr False, s\<lparr>canvasData := AList.update k d (canvasData s)\<rparr>, cv))
   \<and> (\<not> noUser s \<and> map_of (canvasData s) k = None \<and> map_of remote k = None \<longrightarrow>
        loadCanvasFromSVG E None s remote cv q p sid path = (Inr False, s, cv))
   \<and> (\<not> noUser s \<and> map_of (canvasData s) k = None \<longrightarrow>
        loadCanvasFromSVG E (Some e) s remote cv q p sid path = (Inr False, s, cv))
   \<and> (\<exists>b. fst (loadCanvasFromSVG E fault s remote cv q p sid path) = Inr b)"
    unfolding k
    apply (intro conjI impI)
           apply (simp add: loadCanvasFromSVG_noUser)
          apply (simp add: loadCanvasFromSVG_hit drawIfPresent_decodes)
         apply (elim conjE, simp add: loadCanvasFromSVG_hit drawIfPresent_fails)
        apply (simp add: loadCanvasFromSVG_miss drawIfPresent_decodes)
       apply (elim conjE, simp add: loadCanvasFromSVG_miss drawIfPresent_fails)
      apply (simp add: loadCanvasFromSVG_miss)
     apply (simp add: loadCanvasFromSVG_miss)
    using resolves k apply simp
    done
qed

theorem load_outcome_witness:
  "\<not> noUser (fst (snd savedOnce)) \<and> \<not> noUser sampleStore
   \<and> loadCanvasFromSVG sampleEnv (Some (RemoteFailure ''offline'')) (fst (snd savedOnce)) []
        otherCanvas ''1'' ''1'' (Some ''0'') (Some ''doc.tex'')
       = (Inr True, fst (snd savedOnce), otherCanvas\<lparr>pixels := ''png''\<rparr>)
   \<and> loadCanvasFromSVG sampleEnv None sampleStore (snd (snd savedOnce))
        otherCanvas ''1'' ''1'' (Some ''0'') (Some ''doc.tex'')
       = (Inr True,
          sampleStore\<lparr>canvasData := snd (snd savedOnce)\<rparr>, otherCanvas\<lparr>pixels := ''png''\<rparr>)
   \<and> loadCanvasFromSVG sampleEnv None sampleStore [] otherCanvas ''1'' ''1'' (Some ''0'')
        (Some ''doc.tex'') = (Inr False, sampleStore, otherCanvas)
   \<and> loadCanvasFromSVG sampleEnv (Some (RemoteFailure ''offline'')) sampleStore
        (snd (snd savedOnce)) otherCanvas ''1'' ''1'' (Some ''0'') (Some ''doc.tex'')
       = (Inr False, sampleStore, otherCanvas)"
proof -
  let ?k = "compositeKey (getFileHash sampleEnv (Some ''doc.tex''))
              (getCanvasKey ''1'' ''1'' (Some ''0''))"
  let ?d = "newCanvasDoc sampleEnv sampleCanvas ''1'' ''1'' (Some ''0'') (Some ''doc.tex'')"
  have u: "\<not> noUser (fst (snd savedOnce))" "\<not> noUser sampleStore"
    by (simp_all add: savedOnce_eval sampleStore_def FirebaseCanvasStorage_def noUser_def)
  have cached: "map_of (canvasData (fst (snd savedOnce))) ?k
      = Some (?d\<lparr>timestamp := ClientTime ''t1''\<rparr>)"
    by (simp add: compositeKey_def getCanvasKey_def savedOnce_eval newCanvasDoc_def canvasToSVG_def sampleEnv_def
        sampleCanvas_def getFileHash_def hashString_def sectionField_def)
  have stored: "map_of (snd (snd savedOnce)) ?k = Some ?d"
    "snd (snd savedOnce) = AList.update ?k ?d []"
    by (simp_all add: compositeKey_def getCanvasKey_def savedOnce_eval newCanvasDoc_def canvasToSVG_def sampleEnv_def
        sampleCanvas_def getFileHash_def hashString_def sectionField_def)
  have empty: "map_of (canvasData sampleStore) ?k = None" "canvasData sampleStore = []"
    "map_of ([] :: collection) ?k = None"
    by (simp_all add: sampleStore_def FirebaseCanvasStorage_def)
  have img: "svg ?d \<noteq> []" "svg (?d\<lparr>timestamp := ClientTime ''t1''\<rparr>) \<noteq> []"
    by (simp_all add: newCanvasDoc_def canvasToSVG_def sampleEnv_def)
  have dec: "loadSVGToCanvas sampleEnv otherCanvas (svg ?d) = Inr (otherCanvas\<lparr>pixels := ''png''\<rparr>)"
    "loadSVGToCanvas sampleEnv otherCanvas (svg (?d\<lparr>timestamp := ClientTime ''t1''\<rparr>))
       = Inr (otherCanvas\<lparr>pixels := ''png''\<rparr>)"
    by (simp_all add: loadSVGToCanvas_def newCanvasDoc_def canvasToSVG_def sampleEnv_def
        sampleCanvas_def)
  note hit = load_outcome [where k = ?k and E = sampleEnv and path = "Some ''doc.tex''"
      and q = "''1''" and p = "''1''" and sid = "Some ''0''" and s = "fst (snd savedOnce)"
      and fault = "Some (RemoteFailure ''offline'')" and remote = "[]" and cv = otherCanvas
      and d = "?d\<lparr>timestamp := ClientTime ''t1''\<rparr>" and cv' = "otherCanvas\<lparr>pixels := ''png''\<rparr>"]
  note fetch = load_outcome [where k = ?k and E = sampleEnv and path = "Some ''doc.tex''"
      and q = "''1''" and p = "''1''" and sid = "Some ''0''" and s = sampleStore
      and remote = "snd (snd savedOnce)" and cv = otherCanvas
      and d = ?d and cv' = "otherCanvas\<lparr>pixels := ''png''\<rparr>"
      and e = "RemoteFailure ''offline''"]
  note absent = load_outcome [where k = ?k and E = sampleEnv and path = "Some ''doc.tex''"
      and q = "''1''" and p = "''1''" and sid = "Some ''0''" and s = sampleStore
      and remote = "[]" and cv = otherCanvas]
  from hit u cached img dec
  have 1: "loadCanvasFromSVG sampleEnv (Some (RemoteFailure ''offline'')) (fst (snd savedOnce)) []
        otherCanvas ''1'' ''1'' (Some ''0'') (Some ''doc.tex'')
       = (Inr True, fst (snd savedOnce), otherCanvas\<lparr>pixels := ''png''\<rparr>)"
    by blast
  from fetch u empty stored img dec
  have 2: "loadCanvasFromSVG sampleEnv None sampleStore (snd (snd savedOnce))
        otherCanvas ''1'' ''1'' (Some ''0'') (Some ''doc.tex'')
       = (Inr True,
          sampleStore\<lparr>canvasData := snd (snd savedOnce)\<rparr>, otherCanvas\<lparr>pixels := ''png''\<rparr>)"
    by simp
  from absent u empty
  have 3: "loadCanvasFromSVG sampleEnv None sampleStore [] otherCanvas ''1'' ''1'' (Some ''0'')
        (Some ''doc.tex'') = (Inr False, sampleStore, otherCanvas)"
    by blast
  from fetch u empty
  have 4: "loadCanvasFromSVG sampleEnv (Some (RemoteFailure ''offline'')) sampleStore
        (snd (snd savedOnce)) otherCanvas ''1'' ''1'' (Some ''0'') (Some ''doc.tex'')
       = (Inr False, sampleStore, otherCanvas)"
    by blast
  from u 1 2 3 4 show ?thesis by (intro conjI)
qed

section \<open>Properties of import\<close>

lemma fold_queueImport:
  "fold queueImport entries acc =
     (fst acc @ map (\<lambda>entry. BatchSet (fst entry) (restamp (snd entry))) entries,
      snd acc + length entries)"
  by (induction entries arbitrary: acc) (simp_all add: queueImport_def)

lemma fold_applyOp_sets:
  "fold applyOp (map (\<lambda>entry. BatchSet (fst entry) (f (snd entry))) entries) c =
   fold (\<lambda>entry. AList.update (fst entry) (f (snd entry))) entries c"
  by (induction entries arbitrary: c) simp_all

lemma keys_fold_update:
  "fst ` set (fold (\<lambda>entry. AList.update (fst entry) (f (snd entry))) entries c) =
   fst ` set c \<union> fst ` set entries"
  by (induction entries arbitrary: c) (auto simp: dom_update)

lemma map_of_fold_update_other:
  "k \<notin> fst ` set entries \<Longrightarrow>
   map_of (fold (\<lambda>entry. AList.update (fst entry) (f (snd entry))) entries c) k = map_of c k"
  by (induction entries arbitrary: c) (auto simp: update_conv')

lemma map_of_fold_update_entry:
  "distinct (map fst entries) \<Longrightarrow> (k, d) \<in> set entries \<Longrightarrow>
   map_of (fold (\<lambda>entry. AList.update (fst entry) (f (snd entry))) entries c) k = Some (f d)"
proof (induction entries arbitrary: c)
  case Nil
  then show ?case by simp
next
  case (Cons x entries)
  show ?case
  proof (cases "(k, d) = x")
    case True
    with Cons.prems have "k \<notin> fst ` set entries" by force
    then have "map_of (fold (\<lambda>entry. AList.update (fst entry) (f (snd entry))) entries
                 (AList.update k (f d) c)) k = map_of (AList.update k (f d) c) k"
      by (rule map_of_fold_update_other)
    with True show ?thesis
      by (auto simp: update_conv')
  next
    case False
    with Cons show ?thesis by auto
  qed
qed

lemma importCanvases_commits:
  "importCanvases (Parsed (Some entries)) None s remote =
     (Inr (length entries),
      s\<lparr>canvasData := fold (\<lambda>entry. AList.update (fst entry) (snd entry)) entries (canvasData s)\<rparr>,
      fold (\<lambda>entry. AList.update (fst entry) (restamp (snd entry))) entries remote)"
  by (simp add: importCanvases_def fold_queueImport commit_def fold_applyOp_sets assign_def)

text \<open>
  Claim C6. A parsed payload without the member \<open>canvases\<close> makes the import reject with
  the format error, remote collection and cache unchanged. With the member present and
  the batch committed, the import resolves to the number of its entries, every entry's
  record is written to the remote collection re-stamped, and the entries are merged into
  the cache, so that every imported key is among the cached keys; keys outside the
  payload keep their records. A batch that fails to commit makes the import reject, and no
  rejected import changes cache or remote collection.
\<close>

theorem import_outcome:
  "importCanvases (Parsed None) fault s remote = (Inl InvalidFormat, s, remote)
   \<and> importCanvases (Parsed (Some entries)) (Some e) s remote = (Inl (ImportFailed e), s, remote)
   \<and> (importCanvases (Parsed (Some entries)) None s remote = (r, s', remote') \<longrightarrow>
         r = Inr (length entries)
       \<and> set (getAllCanvasKeys s') = set (getAllCanvasKeys s) \<union> fst ` set entries
       \<and> fst ` set remote' = fst ` set remote \<union> fst ` set entries
       \<and> (distinct (map fst entries) \<longrightarrow>
            (\<forall>(k, d) \<in> set entries.
                map_of remote' k = Some (restamp d) \<and> map_of (canvasData s') k = Some d))
       \<and> (\<forall>k. k \<notin> fst ` set entries \<longrightarrow>
              map_of remote' k = map_of remote k
            \<and> map_of (canvasData s') k = map_of (canvasData s) k))
   \<and> (fst (importCanvases input fault s remote) = Inl e' \<longrightarrow>
         snd (importCanvases input fault s remote) = (s, remote))"
proof (intro conjI impI)
  show "importCanvases (Parsed None) fault s remote = (Inl InvalidFormat, s, remote)"
    by (simp add: importCanvases_def)
  show "snd (importCanvases input fault s remote) = (s, remote)"
    if "fst (importCanvases input fault s remote) = Inl e'"
    using that
    by (cases input; cases fault)
       (auto simp: importCanvases_def fold_queueImport commit_def split: option.splits)
  show "importCanvases (Parsed (Some entries)) (Some e) s remote = (Inl (ImportFailed e), s, remote)"
    by (simp add: importCanvases_def fold_queueImport commit_def)
next
  assume "importCanvases (Parsed (Some entries)) None s remote = (r, s', remote')"
  then have r: "r = Inr (length entries)"
    and s': "s' = s\<lparr>canvasData :=
        fold (\<lambda>entry. AList.update (fst entry) (snd entry)) entries (canvasData s)\<rparr>"
    and remote': "remote' =
        fold (\<lambda>entry. AList.update (fst entry) (restamp (snd entry))) entries remote"
    by (simp_all add: importCanvases_commits)
  note keys = keys_fold_update [where f = id, simplified]
  note other = map_of_fold_update_other [where f = id, simplified]
  note entry = map_of_fold_update_entry [where f = id, simplified]
  show "r = Inr (length entries)"
    by (rule r)
  show "set (getAllCanvasKeys s') = set (getAllCanvasKeys s) \<union> fst ` set entries"
    by (simp add: s' getAllCanvasKeys_def keys)
  show "fst ` set remote' = fst ` set remote \<union> fst ` set entries"
    by (simp add: remote' keys_fold_update)
  show "\<forall>k. k \<notin> fst ` set entries \<longrightarrow>
              map_of remote' k = map_of remote k
            \<and> map_of (canvasData s') k = map_of (canvasData s) k"
    by (simp add: s' remote' map_of_fold_update_other other)
  show "\<forall>(k, d) \<in> set entries.
          map_of remote' k = Some (restamp d) \<and> map_of (canvasData s') k = Some d"
    if "distinct (map fst entries)"
    using that map_of_fold_update_entry [of entries _ _ restamp remote]
      entry [of entries _ _ "canvasData s"]
    by (auto simp: s' remote')
qed

lemma importedTwo_eval:
  "importedTwo =
     (Inr 2,
      sampleStore\<lparr>canvasData :=
        [(''a'', sampleDoc ''<svg/>'' ''h1''), (''b'', sampleDoc ''<svg/>'' ''h2'')]\<rparr>,
      [(''a'', restamp (sampleDoc ''<svg/>'' ''h1'')), (''b'', restamp (sampleDoc ''<svg/>'' ''h2''))])"
  by (simp add: importedTwo_def importCanvases_commits sampleStore_def FirebaseCanvasStorage_def)

theorem import_outcome_witness:
  "fst importedTwo = Inr 2
   \<and> ''a'' \<in> set (getAllCanvasKeys (fst (snd importedTwo)))
   \<and> ''b'' \<in> set (getAllCanvasKeys (fst (snd importedTwo)))
   \<and> map_of (snd (snd importedTwo)) ''b'' = Some (restamp (sampleDoc ''<svg/>'' ''h2''))
   \<and> importCanvases (Parsed None) None sampleStore [] = (Inl InvalidFormat, sampleStore, [])"
proof -
  let ?entries = "[(''a'', sampleDoc ''<svg/>'' ''h1''), (''b'', sampleDoc ''<svg/>'' ''h2'')]"
  have eq: "importCanvases (Parsed (Some ?entries)) None sampleStore []
      = (fst importedTwo, fst (snd importedTwo), snd (snd importedTwo))"
    unfolding importedTwo_def [symmetric] by simp
  have d: "distinct (map fst ?entries)"
    by simp
  note t = import_outcome [where entries = ?entries and s = sampleStore and remote = "[]"
      and fault = None and r = "fst importedTwo" and s' = "fst (snd importedTwo)"
      and remote' = "snd (snd importedTwo)"]
  from t eq have 1: "fst importedTwo = Inr 2"
    by simp
  from t eq have 2: "''a'' \<in> set (getAllCanvasKeys (fst (snd importedTwo)))"
    "''b'' \<in> set (getAllCanvasKeys (fst (snd importedTwo)))"
    by simp_all
  from t eq d have 3: "map_of (snd (snd importedTwo)) ''b'' = Some (restamp (sampleDoc ''<svg/>'' ''h2''))"
    by simp
  from t have 4: "importCanvases (Parsed None) None sampleStore [] = (Inl InvalidFormat, sampleStore, [])"
    by simp
  from 1 2 3 4 show ?thesis by (intro conjI)
qed

section \<open>Properties of the bulk load\<close>

lemma mergeMatching_entry:
  "mergeMatching h (k, d) cache =
     (if fileId d = h then AList.update k d cache else cache)"
  by (simp add: mergeMatching_def)

lemma map_of_fold_mergeMatching_other:
  "k \<notin> fst ` set snapshot \<Longrightarrow>
   map_of (fold (mergeMatching h) snapshot cache) k = map_of cache k"
  by (induction snapshot arbitrary: cache) (auto simp: mergeMatching_entry update_conv')

lemma map_of_fold_mergeMatching:
  "distinct (map fst snapshot) \<Longrightarrow>
   map_of (fold (mergeMatching h) snapshot cache) k =
     (case map_of snapshot k of
        Some d \<Rightarrow> if fileId d = h then Some d else map_of cache k
      | None \<Rightarrow> map_of cache k)"
proof (induction snapshot arbitrary: cache)
  case Nil
  then show ?case by simp
next
  case (Cons x snapshot)
  show ?case
  proof (cases "fst x = k")
    case True
    have "k \<notin> fst ` set snapshot"
      using Cons.prems True by auto
    then have "map_of (fold (mergeMatching h) snapshot (mergeMatching h x cache)) k
        = map_of (mergeMatching h x cache) k"
      by (rule map_of_fold_mergeMatching_other)
    with True show ?thesis
      by (cases x) (auto simp: mergeMatching_entry update_conv')
  next
    case False
    with Cons show ?thesis
      by (cases x) (auto simp: mergeMatching_entry update_conv' split: option.splits)
  qed
qed

text \<open>
  Claim C7. With a user identity set, the bulk load raises the loading flag before it
  awaits the fetch and has lowered it when it returns, whether the fetch succeeded or
  failed; it never rejects. After a successful fetch the cache holds, for every document
  identifier of the remote collection whose record carries the derived document
  identifier, that record, and is unchanged at every other key; after a failed fetch the
  cache is unchanged. Against an empty collection the cache and its count are unchanged.
\<close>

theorem loadAll_outcome:
  "\<not> noUser s
   \<and> loadAllCanvasesForFile E fault s remote path = (r, pending, s')
   \<and> h = getFileHash E path \<longrightarrow>
     r = Inr ()
   \<and> pending = Some (s\<lparr>isLoading := True\<rparr>)
   \<and> \<not> isLoadingFromFirebase s'
   \<and> userId s' = userId s
   \<and> (fault = None \<and> distinct (map fst remote) \<longrightarrow>
        (\<forall>k. map_of (canvasData s') k =
           (case map_of remote k of
              Some d \<Rightarrow> if fileId d = h then Some d else map_of (canvasData s) k
            | None \<Rightarrow> map_of (canvasData s) k)))
   \<and> (fault = None \<longrightarrow> hasLoadedData s')
   \<and> (fault = Some e \<longrightarrow>
        canvasData s' = canvasData s \<and> hasLoadedData s' = hasLoadedData s)
   \<and> (remote = [] \<longrightarrow>
        canvasData s' = canvasData s \<and> getCanvasCount s' = getCanvasCount s)"
proof
  assume a: "\<not> noUser s
   \<and> loadAllCanvasesForFile E fault s remote path = (r, pending, s')
   \<and> h = getFileHash E path"
  then have u: "\<not> noUser s"
    and eq: "loadAllCanvasesForFile E fault s remote path = (r, pending, s')"
    and h: "h = getFileHash E path"
    by simp_all
  from eq u have r: "r = Inr ()" and p: "pending = Some (s\<lparr>isLoading := True\<rparr>)"
    by (simp_all add: loadAllCanvasesForFile_def Let_def)
  have failed: "s' = s\<lparr>isLoading := False\<rparr>" if "fault = Some e" for e
    using eq u that by (auto simp: loadAllCanvasesForFile_def Let_def getDocs_def)
  have fetched: "s' = s\<lparr>canvasData := fold (mergeMatching h) remote (canvasData s),
                       hasLoadedFromFirebase := True, isLoading := False\<rparr>"
    if "fault = None"
    using eq u that by (auto simp: loadAllCanvasesForFile_def Let_def getDocs_def h)
  have flag: "\<not> isLoadingFromFirebase s'" and uid: "userId s' = userId s"
    using failed fetched by (cases fault; simp add: isLoadingFromFirebase_def)+
  have empty: "canvasData s' = canvasData s" if "remote = []"
    using failed fetched that by (cases fault) simp_all
  show "r = Inr ()
   \<and> pending = Some (s\<lparr>isLoading := True\<rparr>)
   \<and> \<not> isLoadingFromFirebase s'
   \<and> userId s' = userId s
   \<and> (fault = None \<and> distinct (map fst remote) \<longrightarrow>
        (\<forall>k. map_of (canvasData s') k =
           (case map_of remote k of
              Some d \<Rightarrow> if fileId d = h then Some d else map_of (canvasData s) k
            | None \<Rightarrow> map_of (canvasData s) k)))
   \<and> (fault = None \<longrightarrow> hasLoadedData s')
   \<and> (fault = Some e \<longrightarrow>
        canvasData s' = canvasData s \<and> hasLoadedData s' = hasLoadedData s)
   \<and> (remote = [] \<longrightarrow>
        canvasData s' = canvasData s \<and> getCanvasCount s' = getCanvasCount s)"
    using r p flag uid empty failed [of e] fetched
    by (auto simp: map_of_fold_mergeMatching hasLoadedData_def getCanvasCount_def
        getAllCanvasKeys_def)
qed

theorem loadAll_outcome_witness:
  "\<not> noUser sampleStore
   \<and> fst (loadAllCanvasesForFile sampleEnv None sampleStore mixedRemote (Some ''doc.tex''))
       = Inr ()
   \<and> getAllCanvasKeys (snd (snd (loadAllCanvasesForFile sampleEnv None sampleStore
        mixedRemote (Some ''doc.tex'')))) = [''hdoc.tex_q1_p1'']
   \<and> map_of (canvasData (snd (snd (loadAllCanvasesForFile sampleEnv None sampleStore
        mixedRemote (Some ''doc.tex''))))) ''hother_q1_p1'' = None
   \<and> map_of (canvasData (snd (snd (loadAllCanvasesForFile sampleEnv None sampleStore
        mixedRemote (Some ''doc.tex''))))) ''hdoc.tex_q1_p1''
       = Some (sampleDoc ''<svg/>'' ''hdoc.tex'')
   \<and> \<not> isLoadingFromFirebase (snd (snd (loadAllCanvasesForFile sampleEnv None sampleStore
        mixedRemote (Some ''doc.tex''))))
   \<and> \<not> isLoadingFromFirebase (snd (snd (loadAllCanvasesForFile sampleEnv
        (Some (RemoteFailure ''offline'')) sampleStore mixedRemote (Some ''doc.tex''))))
   \<and> getCanvasCount (snd (snd (loadAllCanvasesForFile sampleEnv None sampleStore []
        (Some ''doc.tex'')))) = getCanvasCount sampleStore"
proof -
  let ?ok = "loadAllCanvasesForFile sampleEnv None sampleStore mixedRemote (Some ''doc.tex'')"
  let ?bad = "loadAllCanvasesForFile sampleEnv (Some (RemoteFailure ''offline'')) sampleStore
      mixedRemote (Some ''doc.tex'')"
  let ?none = "loadAllCanvasesForFile sampleEnv None sampleStore [] (Some ''doc.tex'')"
  have u: "\<not> noUser sampleStore"
    by (simp add: sampleStore_def FirebaseCanvasStorage_def noUser_def)
  have keys: "getAllCanvasKeys (snd (snd ?ok)) = [''hdoc.tex_q1_p1'']"
    by (simp add: loadAllCanvasesForFile_def noUser_def getDocs_def mixedRemote_def mergeMatching_def
        sampleDoc_def getFileHash_def hashString_def sampleEnv_def sampleStore_def
        FirebaseCanvasStorage_def getAllCanvasKeys_def Let_def)
  note t1 = loadAll_outcome [where s = sampleStore and E = sampleEnv and fault = None
      and remote = mixedRemote and path = "Some ''doc.tex''" and r = "fst ?ok"
      and pending = "fst (snd ?ok)" and s' = "snd (snd ?ok)"
      and h = "getFileHash sampleEnv (Some ''doc.tex'')"]
  note t2 = loadAll_outcome [where s = sampleStore and E = sampleEnv
      and fault = "Some (RemoteFailure ''offline'')"
      and remote = mixedRemote and path = "Some ''doc.tex''" and r = "fst ?bad"
      and pending = "fst (snd ?bad)" and s' = "snd (snd ?bad)"
      and h = "getFileHash sampleEnv (Some ''doc.tex'')"]
  note t3 = loadAll_outcome [where s = sampleStore and E = sampleEnv and fault = None
      and remote = "[]" and path = "Some ''doc.tex''" and r = "fst ?none"
      and pending = "fst (snd ?none)" and s' = "snd (snd ?none)"
      and h = "getFileHash sampleEnv (Some ''doc.tex'')"]
  from u t1 have 1: "fst ?ok = Inr ()" "\<not> isLoadingFromFirebase (snd (snd ?ok))"
    by simp_all
  have dist: "distinct (map fst mixedRemote)"
    by (simp add: mixedRemote_def)
  from u t1 dist
  have "\<forall>k. map_of (canvasData (snd (snd ?ok))) k =
           (case map_of mixedRemote k of
              Some d \<Rightarrow> if fileId d = getFileHash sampleEnv (Some ''doc.tex'') then Some d
                        else map_of (canvasData sampleStore) k
            | None \<Rightarrow> map_of (canvasData sampleStore) k)"
    by simp
  then have merged: "map_of (canvasData (snd (snd ?ok))) ''hother_q1_p1'' = None"
    "map_of (canvasData (snd (snd ?ok))) ''hdoc.tex_q1_p1''
       = Some (sampleDoc ''<svg/>'' ''hdoc.tex'')"
    by (simp_all add: mixedRemote_def sampleDoc_def getFileHash_def hashString_def
        sampleEnv_def sampleStore_def FirebaseCanvasStorage_def)
  from u t2 have 2: "\<not> isLoadingFromFirebase (snd (snd ?bad))"
    by simp
  from u t3 have 3: "getCanvasCount (snd (snd ?none)) = getCanvasCount sampleStore"
    by simp
  from u keys merged 1 2 3 show ?thesis by (intro conjI)
qed

section \<open>Properties of clear-all\<close>

lemma delete_as_filter: "AList.delete k al = filter (\<lambda>entry. fst entry \<noteq> k) al"
  by (induction al) auto

lemma fold_applyOp_deletes:
  "fold applyOp (map (\<lambda>entry. BatchDelete (fst entry)) snapshot) remote =
   filter (\<lambda>entry. fst entry \<notin> fst ` set snapshot) remote"
proof (induction snapshot arbitrary: remote)
  case Nil
  then show ?case by simp
next
  case (Cons x snapshot)
  have "filter (\<lambda>entry. fst entry \<notin> fst ` set snapshot) (AList.delete (fst x) remote)
      = filter (\<lambda>entry. fst entry \<notin> fst ` set (x # snapshot)) remote"
    by (induction remote) (auto simp: delete_as_filter)
  with Cons show ?case by simp
qed

lemma clearAllCanvases_commits:
  "clearAllCanvases None None s remote = (Inr (), s\<lparr>canvasData := []\<rparr>, [])"
proof -
  have "filter (\<lambda>entry. fst entry \<notin> fst ` set remote) remote = []"
    by (simp add: filter_empty_conv)
  then show ?thesis
    by (simp add: clearAllCanvases_def getDocs_def commit_def fold_applyOp_deletes)
qed

text \<open>
  Claim C9. Clear-all empties the cache only when both the remote read and the batch
  delete have succeeded (the remote collection is then empty too). When the read or the
  commit fails, the call rejects with that failure and the store, in particular the
  cached keys and their count, and the remote collection are exactly as before.
\<close>

theorem clearAll_outcome:
  "clearAllCanvases (Some e) commitFault s remote = (Inl e, s, remote)
   \<and> clearAllCanvases None (Some e) s remote = (Inl e, s, remote)
   \<and> clearAllCanvases None None s remote = (Inr (), s\<lparr>canvasData := []\<rparr>, [])
   \<and> (clearAllCanvases readFault commitFault s remote = (r, s', remote') \<longrightarrow>
        (r = Inr () \<longleftrightarrow> readFault = None \<and> commitFault = None)
      \<and> (r = Inr () \<longrightarrow> getAllCanvasKeys s' = [] \<and> getCanvasCount s' = 0 \<and> remote' = [])
      \<and> (r \<noteq> Inr () \<longrightarrow>
            s' = s \<and> remote' = remote
          \<and> getAllCanvasKeys s' = getAllCanvasKeys s
          \<and> getCanvasCount s' = getCanvasCount s
          \<and> (\<exists>failure. r = Inl failure
                \<and> (readFault = Some failure
                    \<or> readFault = None \<and> commitFault = Some failure))))"
proof -
  have read: "clearAllCanvases (Some e) commitFault s remote = (Inl e, s, remote)"
    for e commitFault
    by (simp add: clearAllCanvases_def getDocs_def)
  have commit: "clearAllCanvases None (Some e) s remote = (Inl e, s, remote)" for e
    by (simp add: clearAllCanvases_def getDocs_def commit_def)
  note ok = clearAllCanvases_commits [of s remote]
  have general:
    "(r = Inr () \<longleftrightarrow> readFault = None \<and> commitFault = None)
      \<and> (r = Inr () \<longrightarrow> getAllCanvasKeys s' = [] \<and> getCanvasCount s' = 0 \<and> remote' = [])
      \<and> (r \<noteq> Inr () \<longrightarrow>
            s' = s \<and> remote' = remote
          \<and> getAllCanvasKeys s' = getAllCanvasKeys s
          \<and> getCanvasCount s' = getCanvasCount s
          \<and> (\<exists>failure. r = Inl failure
                \<and> (readFault = Some failure
                    \<or> readFault = None \<and> commitFault = Some failure)))"
    if eq: "clearAllCanvases readFault commitFault s remote = (r, s', remote')"
  proof (cases readFault)
    case (Some failure)
    with eq read [of failure commitFault] show ?thesis by auto
  next
    case None
    show ?thesis
    proof (cases commitFault)
      case (Some failure)
      with None eq commit [of failure] show ?thesis by auto
    next
      case commitNone: None
      with None eq ok show ?thesis
        by (auto simp: getAllCanvasKeys_def getCanvasCount_def)
    qed
  qed
  from read [of e commitFault] commit [of e] ok general show ?thesis
    by blast
qed

theorem clearAll_outcome_witness:
  "clearAllCanvases None (Some invalidPath) (fst (snd importedTwo)) (snd (snd importedTwo))
     = (Inl invalidPath, fst (snd importedTwo), snd (snd importedTwo))
   \<and> getCanvasCount (fst (snd importedTwo)) = 2
   \<and> clearAllCanvases (Some invalidPath) None (fst (snd importedTwo)) (snd (snd importedTwo))
     = (Inl invalidPath, fst (snd importedTwo), snd (snd importedTwo))
   \<and> getCanvasCount (fst (snd (clearAllCanvases None None (fst (snd importedTwo))
        (snd (snd importedTwo))))) = 0"
proof -
  let ?s = "fst (snd importedTwo)" and ?remote = "snd (snd importedTwo)"
  let ?cleared = "clearAllCanvases None None ?s ?remote"
  note t = clearAll_outcome [where s = ?s and remote = ?remote and e = invalidPath
      and commitFault = None and readFault = None and r = "fst ?cleared"
      and s' = "fst (snd ?cleared)" and remote' = "snd (snd ?cleared)"]
  have n: "getCanvasCount ?s = 2"
    by (simp add: importedTwo_eval getCanvasCount_def getAllCanvasKeys_def)
  from t have 1: "clearAllCanvases None (Some invalidPath) ?s ?remote = (Inl invalidPath, ?s, ?remote)"
    by simp
  from t have 2: "clearAllCanvases (Some invalidPath) None ?s ?remote = (Inl invalidPath, ?s, ?remote)"
    by simp
  have eq: "clearAllCanvases None None ?s ?remote
      = (fst ?cleared, fst (snd ?cleared), snd (snd ?cleared))"
    by simp
  from t eq have 3: "getCanvasCount (fst (snd ?cleared)) = 0"
    by blast
  from 1 n 2 3 show ?thesis by (intro conjI)
qed

section \<open>A store without user identity\<close>

text \<open>
  Claim C4 as stated fails: export has no identity guard. On a store constructed without
  a user identity it issues its remote read, and when that read fails the call rejects
  with the failure instead of returning a sentinel.
\<close>

theorem anonymous_export_counterexample:
  "noUser anonymousStore
   \<and> exportAllCanvases ''t1'' (Some invalidPath) anonymousStore [] = Inl invalidPath"
  by (simp add: anonymousStore_def FirebaseCanvasStorage_def noUser_def
      exportAllCanvases_def getDocs_def)

text \<open>
  Claim C4, amended. On a store without user identity, save returns \<open>null\<close>, load returns
  \<open>false\<close> and the bulk load returns at once, none of them rejecting or touching cache,
  loading flag or remote collection. Export, import, clear-all and delete carry no
  identity guard: they attempt their remote call and reject with its failure (import
  wraps it), leaving cache and remote collection unchanged.
\<close>

theorem anonymous_store_outcomes:
  "noUser s \<longrightarrow>
     saveCanvasAsSVG E now fault s remote cv q p sid path = (Inr None, s, remote)
   \<and> loadCanvasFromSVG E fault s remote cv q p sid path = (Inr False, s, cv)
   \<and> loadAllCanvasesForFile E fault s remote path = (Inr (), None, s)
   \<and> exportAllCanvases now (Some e) s remote = Inl e
   \<and> importCanvases (Parsed (Some entries)) (Some e) s remote
       = (Inl (ImportFailed e), s, remote)
   \<and> clearAllCanvases (Some e) commitFault s remote = (Inl e, s, remote)
   \<and> clearAllCanvases None (Some e) s remote = (Inl e, s, remote)
   \<and> deleteCanvas E (Some e) s remote q p sid path = (Inl e, s, remote)"
proof
  assume u: "noUser s"
  have save: "saveCanvasAsSVG E now fault s remote cv q p sid path = (Inr None, s, remote)"
    using u by (rule saveCanvasAsSVG_noUser)
  have load: "loadCanvasFromSVG E fault s remote cv q p sid path = (Inr False, s, cv)"
    using u by (rule loadCanvasFromSVG_noUser)
  have loadAll: "loadAllCanvasesForFile E fault s remote path = (Inr (), None, s)"
    using u by (simp add: loadAllCanvasesForFile_def)
  have export: "exportAllCanvases now (Some e) s remote = Inl e"
    by (simp add: exportAllCanvases_def getDocs_def)
  have import: "importCanvases (Parsed (Some entries)) (Some e) s remote
       = (Inl (ImportFailed e), s, remote)"
    by (simp add: importCanvases_def fold_queueImport commit_def)
  have clear: "clearAllCanvases (Some e) commitFault s remote = (Inl e, s, remote)"
    "clearAllCanvases None (Some e) s remote = (Inl e, s, remote)"
    by (simp_all add: clearAllCanvases_def getDocs_def commit_def)
  have delete: "deleteCanvas E (Some e) s remote q p sid path = (Inl e, s, remote)"
    by (simp add: deleteCanvas_def deleteDoc_def Let_def)
  from save load loadAll export import clear delete
  show "saveCanvasAsSVG E now fault s remote cv q p sid path = (Inr None, s, remote)
   \<and> loadCanvasFromSVG E fault s remote cv q p sid path = (Inr False, s, cv)
   \<and> loadAllCanvasesForFile E fault s remote path = (Inr (), None, s)
   \<and> exportAllCanvases now (Some e) s remote = Inl e
   \<and> importCanvases (Parsed (Some entries)) (Some e) s remote
       = (Inl (ImportFailed e), s, remote)
   \<and> clearAllCanvases (Some e) commitFault s remote = (Inl e, s, remote)
   \<and> clearAllCanvases None (Some e) s remote = (Inl e, s, remote)
   \<and> deleteCanvas E (Some e) s remote q p sid path = (Inl e, s, remote)"
    by (intro conjI)
qed

theorem anonymous_store_outcomes_witness:
  "noUser anonymousStore
   \<and> saveCanvasAsSVG sampleEnv ''t1'' None anonymousStore mixedRemote sampleCanvas
        ''1'' ''1'' None (Some ''doc.tex'') = (Inr None, anonymousStore, mixedRemote)
   \<and> loadCanvasFromSVG sampleEnv None anonymousStore mixedRemote sampleCanvas
        ''1'' ''1'' None (Some ''doc.tex'') = (Inr False, anonymousStore, sampleCanvas)
   \<and> loadAllCanvasesForFile sampleEnv None anonymousStore mixedRemote (Some ''doc.tex'')
       = (Inr (), None, anonymousStore)
   \<and> exportAllCanvases ''t1'' (Some invalidPath) anonymousStore mixedRemote = Inl invalidPath
   \<and> deleteCanvas sampleEnv (Some invalidPath) anonymousStore mixedRemote
        ''1'' ''1'' None (Some ''doc.tex'') = (Inl invalidPath, anonymousStore, mixedRemote)"
proof -
  have u: "noUser anonymousStore"
    by (simp add: anonymousStore_def FirebaseCanvasStorage_def noUser_def)
  from u anonymous_store_outcomes [where s = anonymousStore and E = sampleEnv
      and now = "''t1''" and fault = None and remote = mixedRemote and cv = sampleCanvas
      and q = "''1''" and p = "''1''" and sid = None and path = "Some ''doc.tex''"
      and e = invalidPath]
  show ?thesis by blast
qed

end
